theory Spec2Isabelle
  imports Main
begin

section \<open>Strings and messages\<close>

text \<open>
  The service is Python. A Python \<^verbatim>\<open>str\<close> is a sequence of Unicode code points.
  \<^item> Where the code looks into a string character by character (the password rules of the
    request validation), a \<^verbatim>\<open>str\<close> is the list of its code points, \<^typ>\<open>nat list\<close>, and
    \<open>length\<close> counts what Python's \<^verbatim>\<open>len\<close> counts. \<open>codepoints\<close> turns an ASCII literal
    into such a string.
  \<^item> Where the code only stores, compares and hands on a string (e-mail addresses, hashes,
    keys, the text of an id, passwords on their way to the hasher), the string is a
    \<^typ>\<open>string\<close>.
  \<^item> The messages of the exceptions are Chinese literals; they are kept as the lists of
    their code points.
\<close>

type_synonym pystr = "nat list"

type_synonym message = "nat list"

definition codepoints :: "string \<Rightarrow> pystr" where
  "codepoints s = map of_char s"

section \<open>Request validation (app/schema/auth.py)\<close>

text \<open>
  \<^verbatim>\<open>re.search(r"[A-Z]", v)\<close> and its siblings ask whether some character of \<open>v\<close> lies in a
  character class. A range \<open>[a-z]\<close> compares code points.
\<close>

definition re_search :: "(nat \<Rightarrow> bool) \<Rightarrow> pystr \<Rightarrow> bool" where
  "re_search cls v = list_ex cls v"

definition in_range :: "char \<Rightarrow> char \<Rightarrow> nat \<Rightarrow> bool" where
  "in_range lo hi c = (of_char lo \<le> c \<and> c \<le> of_char hi)"

definition upper_class :: "nat \<Rightarrow> bool" where
  "upper_class = in_range CHR ''A'' CHR ''Z''"

definition lower_class :: "nat \<Rightarrow> bool" where
  "lower_class = in_range CHR ''a'' CHR ''z''"

text \<open>
  The class \<^verbatim>\<open>\d\<close> of a \<^verbatim>\<open>str\<close> pattern holds every Unicode decimal digit (general category
  Nd), not only the ASCII digits. The decimal digits come in runs of ten, from the zero of
  a script to its nine; \<open>decimal_zeros\<close> lists the zeros of the 66 runs of Unicode 14.0,
  the character database of CPython 3.11 (660 code points in all, the first run being
  \<^verbatim>\<open>0\<close> to \<^verbatim>\<open>9\<close>).
\<close>

definition decimal_zeros :: "nat list" where
  "decimal_zeros =
     [0x30, 0x660, 0x6f0, 0x7c0, 0x966, 0x9e6, 0xa66, 0xae6, 0xb66, 0xbe6, 0xc66, 0xce6,
      0xd66, 0xde6, 0xe50, 0xed0, 0xf20, 0x1040, 0x1090, 0x17e0, 0x1810, 0x1946, 0x19d0,
      0x1a80, 0x1a90, 0x1b50, 0x1bb0, 0x1c40, 0x1c50, 0xa620, 0xa8d0, 0xa900, 0xa9d0,
      0xa9f0, 0xaa50, 0xabf0, 0xff10, 0x104a0, 0x10d30, 0x11066, 0x110f0, 0x11136,
      0x111d0, 0x112f0, 0x11450, 0x114d0, 0x11650, 0x116c0, 0x11730, 0x118e0, 0x11950,
      0x11c50, 0x11d50, 0x11da0, 0x16a60, 0x16ac0, 0x16b50, 0x1d7ce, 0x1d7d8, 0x1d7e2,
      0x1d7ec, 0x1d7f6, 0x1e140, 0x1e2f0, 0x1e950, 0x1fbf0]"

definition digit_class :: "nat \<Rightarrow> bool" where
  "digit_class c = list_ex (\<lambda>z. z \<le> c \<and> c < z + 10) decimal_zeros"

text \<open>
  The bracket expression of the last check, character by character:
  \<^verbatim>\<open>! @ # $ % ^ & * ( ) , . ? " : { } | < > _ - + = [ ] \ ; ' / ` ~\<close>
\<close>

definition symbol_chars :: string where
  "symbol_chars =
     ''!@#$%^&*(),.?'' @ [CHR 0x22] @ '':{}|<>_-+=[]'' @ [CHR 0x5C] @ '';'' @ [CHR 0x27] @ ''/`~''"

definition symbol_class :: "nat \<Rightarrow> bool" where
  "symbol_class c = (c \<in> set (codepoints symbol_chars))"

text \<open>The messages of the five \<^verbatim>\<open>ValueError\<close>s of \<^verbatim>\<open>validate_password\<close>, in source order.\<close>

definition msg_at_least_8 :: message where
  "msg_at_least_8 = [0x5bc6, 0x7801, 0x81f3, 0x5c11, 0x9700, 0x8981, 0x38, 0x4f4d]"

definition msg_need_upper :: message where
  "msg_need_upper = [0x5bc6, 0x7801, 0x5fc5, 0x987b, 0x5305, 0x542b, 0x81f3, 0x5c11, 0x4e00,
     0x4e2a, 0x5927, 0x5199, 0x5b57, 0x6bcd]"

definition msg_need_lower :: message where
  "msg_need_lower = [0x5bc6, 0x7801, 0x5fc5, 0x987b, 0x5305, 0x542b, 0x81f3, 0x5c11, 0x4e00,
     0x4e2a, 0x5c0f, 0x5199, 0x5b57, 0x6bcd]"

definition msg_need_digit :: message where
  "msg_need_digit = [0x5bc6, 0x7801, 0x5fc5, 0x987b, 0x5305, 0x542b, 0x81f3, 0x5c11, 0x4e00,
     0x4e2a, 0x6570, 0x5b57]"

definition msg_need_symbol :: message where
  "msg_need_symbol = [0x5bc6, 0x7801, 0x5fc5, 0x987b, 0x5305, 0x542b, 0x81f3, 0x5c11, 0x4e00,
     0x4e2a, 0x7279, 0x6b8a, 0x5b57, 0x7b26]"

text \<open>
  A field is rejected either by a constraint of its \<^verbatim>\<open>Field(...)\<close> declaration or by the
  \<^verbatim>\<open>ValueError\<close> of its validator.
\<close>

datatype validation_error =
    String_too_short
  | String_too_long
  | Value_error message

definition validate_password :: "pystr \<Rightarrow> validation_error + pystr" where
  "validate_password v =
     (if length v < 8 then Inl (Value_error msg_at_least_8)
      else if \<not> re_search upper_class v then Inl (Value_error msg_need_upper)
      else if \<not> re_search lower_class v then Inl (Value_error msg_need_lower)
      else if \<not> re_search digit_class v then Inl (Value_error msg_need_digit)
      else if \<not> re_search symbol_class v then Inl (Value_error msg_need_symbol)
      else Inr v)"

text \<open>
  \<^verbatim>\<open>password: str = Field(..., min_length=8, max_length=128)\<close> with the validator above
  attached by \<^verbatim>\<open>@field_validator("password")\<close>: the validator runs in the default "after"
  mode, on a value that has passed the length constraints of the field.
\<close>

definition password_field :: "pystr \<Rightarrow> validation_error + pystr" where
  "password_field v =
     (if length v < 8 then Inl String_too_short
      else if 128 < length v then Inl String_too_long
      else validate_password v)"

text \<open>
  The four character classes a password must draw from: the uppercase letters \<^verbatim>\<open>A\<close> to
  \<^verbatim>\<open>Z\<close>, the lowercase letters \<^verbatim>\<open>a\<close> to \<^verbatim>\<open>z\<close>, the decimal digits of every script, and
  the symbols of the punctuation set; the message that reports each class as missing; and
  what it is for a rejection to name a class the password lacks.
\<close>

datatype char_class = Uppercase | Lowercase | Digit | Symbol

fun class_members :: "char_class \<Rightarrow> nat list" where
  "class_members Uppercase = codepoints ''ABCDEFGHIJKLMNOPQRSTUVWXYZ''"
| "class_members Lowercase = codepoints ''abcdefghijklmnopqrstuvwxyz''"
| "class_members Digit = concat (map (\<lambda>z. map (\<lambda>d. z + d) [0..<10]) decimal_zeros)"
| "class_members Symbol = codepoints symbol_chars"

fun class_message :: "char_class \<Rightarrow> message" where
  "class_message Uppercase = msg_need_upper"
| "class_message Lowercase = msg_need_lower"
| "class_message Digit = msg_need_digit"
| "class_message Symbol = msg_need_symbol"

definition contains_class :: "char_class \<Rightarrow> pystr \<Rightarrow> bool" where
  "contains_class k v = list_ex (\<lambda>c. c \<in> set (class_members k)) v"

definition names_missing_class :: "validation_error \<Rightarrow> pystr \<Rightarrow> bool" where
  "names_missing_class e v =
     list_ex (\<lambda>k. e = Value_error (class_message k) \<and> \<not> contains_class k v)
       [Uppercase, Lowercase, Digit, Symbol]"

section \<open>Configuration (app/config.py)\<close>

text \<open>
  \<^verbatim>\<open>settings = get_settings()\<close> is read once per module; the service functions take it as
  an argument here. Only the fields the authentication code reads are kept.
\<close>

record settings =
  secret_key :: string
  algorithm :: string
  access_token_expire_minutes :: int
  refresh_token_expire_days :: int

definition default_settings :: settings where
  "default_settings =
     \<lparr>secret_key = ''your-super-secret-key-change-this-in-production'',
      algorithm = ''HS256'',
      access_token_expire_minutes = 30,
      refresh_token_expire_days = 7\<rparr>"

section \<open>Time\<close>

text \<open>
  A \<^verbatim>\<open>datetime\<close> is an instant with microsecond resolution: the number of microseconds
  since the epoch, in UTC. A \<^verbatim>\<open>timedelta\<close> is a number of microseconds. The numeric date
  of a token is a number of whole seconds since the epoch.
\<close>

type_synonym datetime = int

definition timedelta_minutes :: "int \<Rightarrow> int" where
  "timedelta_minutes m = m * 60000000"

definition timedelta_days :: "int \<Rightarrow> int" where
  "timedelta_days d = d * 86400000000"


text \<open>
  \<^verbatim>\<open>timegm(d.utctimetuple())\<close>: the time tuple has no microsecond field, so the result is
  the instant rounded down to a whole second.
\<close>

definition timegm_utctimetuple :: "datetime \<Rightarrow> int" where
  "timegm_utctimetuple d = d div 1000000"

section \<open>Identifiers and the libraries the service calls\<close>

text \<open>
  A user id is a \<^verbatim>\<open>uuid.UUID\<close>, a 128-bit number. The standard library's conversions
  between a UUID and its text, its conversions of a string and of a float to an integer,
  and the bcrypt handler of passlib, are not part of the repository; they are parameters
  of the model:
  \<^item> \<open>uuid_str\<close> is \<^verbatim>\<open>str(user_id)\<close>;
  \<^item> \<open>uuid_parse\<close> is \<^verbatim>\<open>uuid.UUID(text)\<close> on a string, \<open>None\<close> where it raises
    \<^verbatim>\<open>ValueError\<close> (badly formed hexadecimal UUID string);
  \<^item> \<open>bcrypt_hash\<close> is the handler's hash of a password under a salt (the salt is the
    random choice \<^verbatim>\<open>pwd_context.hash\<close> makes), or the exception it raises;
  \<^item> \<open>bcrypt_verify\<close> is the handler's check of a password against a hash it has
    identified as its own, or the exception it raises (a malformed hash);
  \<^item> \<open>int_of_str\<close> is \<^verbatim>\<open>int(text)\<close> on a string, \<open>None\<close> where it raises
    \<^verbatim>\<open>ValueError\<close>;
  \<^item> \<open>int_of_float\<close> is \<^verbatim>\<open>int(x)\<close> on a float, given by the text of the number: the
    float cut off towards zero, \<^verbatim>\<open>ValueError\<close> for a NaN, \<^verbatim>\<open>OverflowError\<close> for an
    infinity.
\<close>

datatype uuid = UUID nat

datatype jose_error = JWTError | ExpiredSignatureError | JWTClaimsError

text \<open>
  The message of an \<^verbatim>\<open>InvalidTokenError\<close> is a literal, or the string that
  \<^verbatim>\<open>decode_token\<close> formats from a fixed prefix and the text of the library's exception.
\<close>

datatype token_message = Plain message | Decode_failed jose_error

text \<open>
  The exceptions that leave the service: its own three (subclasses of
  \<^verbatim>\<open>AuthServiceError\<close>), and those of the libraries that it does not catch.
\<close>

datatype fault =
    EmailAlreadyExistsError message
  | InvalidCredentialsError message
  | InvalidTokenError token_message
  | IntegrityError
  | InvalidRequestError
  | StaleDataError
  | DBAPIError
  | UnknownHashError
  | TypeError
  | ValueError
  | OverflowError
  | AttributeError

record libs =
  uuid_str :: "uuid \<Rightarrow> string"
  uuid_parse :: "string \<Rightarrow> uuid option"
  bcrypt_hash :: "nat \<Rightarrow> string \<Rightarrow> fault + string"
  bcrypt_verify :: "string \<Rightarrow> string \<Rightarrow> fault + bool"
  int_of_str :: "string \<Rightarrow> int option"
  int_of_float :: "string \<Rightarrow> fault + int"

section \<open>Credential hasher (passlib context of app/service/auth_service.py)\<close>

text \<open>
  \<^verbatim>\<open>pwd_context = CryptContext(schemes=["bcrypt"], deprecated="auto")\<close>.
  \<^verbatim>\<open>CryptContext.verify(secret, hash)\<close> first identifies the scheme of the hash; with
  bcrypt as the only scheme, a hash is identified when it starts with one of bcrypt's
  identifiers. A hash no scheme identifies raises \<^verbatim>\<open>UnknownHashError\<close> ("hash could not
  be identified"); an identified hash is handed to the handler.
\<close>

definition bcrypt_idents :: "string list" where
  "bcrypt_idents = [''$2$'', ''$2a$'', ''$2x$'', ''$2y$'', ''$2b$'']"

definition startswith :: "string \<Rightarrow> string \<Rightarrow> bool" where
  "startswith s p = (take (length p) s = p)"

definition identify :: "string \<Rightarrow> bool" where
  "identify h = list_ex (startswith h) bcrypt_idents"

definition pwd_context_hash :: "libs \<Rightarrow> nat \<Rightarrow> string \<Rightarrow> fault + string" where
  "pwd_context_hash L salt secret = bcrypt_hash L salt secret"

definition pwd_context_verify :: "libs \<Rightarrow> string \<Rightarrow> string \<Rightarrow> fault + bool" where
  "pwd_context_verify L secret h =
     (if \<not> identify h then Inl UnknownHashError else bcrypt_verify L secret h)"

definition hash_password :: "libs \<Rightarrow> nat \<Rightarrow> string \<Rightarrow> fault + string" where
  "hash_password L salt password = pwd_context_hash L salt password"

definition verify_password :: "libs \<Rightarrow> string \<Rightarrow> string \<Rightarrow> fault + bool" where
  "verify_password L plain_password hashed_password =
     pwd_context_verify L plain_password hashed_password"

section \<open>Token codec (python-jose as called by app/service/auth_service.py)\<close>

text \<open>
  A value of JSON as \<^verbatim>\<open>json.loads\<close> gives it to Python: \<open>None\<close>, a \<^verbatim>\<open>bool\<close>, an
  \<^verbatim>\<open>int\<close>, a \<^verbatim>\<open>float\<close> (kept as the text of the number), a \<^verbatim>\<open>str\<close>, a \<^verbatim>\<open>list\<close> or a
  \<^verbatim>\<open>dict\<close> (kept as the list of its items, whose keys are distinct).
\<close>

datatype json =
    JNull
  | JBool bool
  | JInt int
  | JFloat string
  | JStr string
  | JArr "json list"
  | JObj "(string \<times> json) list"

text \<open>
  The payload of a token is the \<^verbatim>\<open>dict\<close> of its claims; \<^verbatim>\<open>payload.get(key)\<close> is
  \<open>map_of payload key\<close>.
\<close>

type_synonym payload = "(string \<times> json) list"

text \<open>
  \<^verbatim>\<open>int(x)\<close> on a value of JSON: a \<^verbatim>\<open>bool\<close> is an \<^verbatim>\<open>int\<close>, a string is parsed, a float is
  cut off, and \<open>None\<close>, a list and a dict raise \<^verbatim>\<open>TypeError\<close>.
\<close>

definition py_int :: "libs \<Rightarrow> json \<Rightarrow> fault + int" where
  "py_int L v =
     (case v of
        JNull \<Rightarrow> Inl TypeError
      | JBool b \<Rightarrow> Inr (if b then 1 else 0)
      | JInt n \<Rightarrow> Inr n
      | JFloat t \<Rightarrow> int_of_float L t
      | JStr t \<Rightarrow> (case int_of_str L t of None \<Rightarrow> Inl ValueError | Some n \<Rightarrow> Inr n)
      | JArr _ \<Rightarrow> Inl TypeError
      | JObj _ \<Rightarrow> Inl TypeError)"

text \<open>
  The claims the service signs: \<^verbatim>\<open>{"sub": str(user_id), "exp": expire, "type": ...}\<close>, with
  \<open>expire\<close> a \<^verbatim>\<open>datetime\<close>.
\<close>

record claims =
  claims_sub :: string
  claims_exp :: datetime
  claims_type :: string

text \<open>
  A signature is kept symbolically: the key, the algorithm and the payload it was
  computed from. A token string is either a JWS compact serialization (the algorithm of
  its header, the value of JSON in its payload segment, its signature) or a string that
  does not parse as one.
\<close>

datatype mac = Mac string string json

datatype token = Jws string json mac | Malformed string

text \<open>
  \<^verbatim>\<open>jwt.encode(claims, key, algorithm)\<close>: a \<^verbatim>\<open>datetime\<close> under \<open>exp\<close> is replaced by
  \<^verbatim>\<open>timegm(claims["exp"].utctimetuple())\<close> before the claims are serialized and signed.
\<close>

definition jwt_encode :: "claims \<Rightarrow> string \<Rightarrow> string \<Rightarrow> token" where
  "jwt_encode c key alg =
     (let p = JObj [(''sub'', JStr (claims_sub c)),
                    (''exp'', JInt (timegm_utctimetuple (claims_exp c))),
                    (''type'', JStr (claims_type c))]
      in Jws alg p (Mac key alg p))"

text \<open>
  What \<^verbatim>\<open>jwt.decode\<close> raises: an exception of the library (\<^verbatim>\<open>JWTError\<close> or one of its
  subclasses), or another exception that passes through it.
\<close>

datatype raised = Jose jose_error | Other fault

text \<open>
  The library reads a time claim with
  \<^verbatim>\<open>try: n = int(claims[key]) except ValueError: raise JWTClaimsError(...)\<close>:
  a \<^verbatim>\<open>ValueError\<close> of the conversion becomes a \<^verbatim>\<open>JWTClaimsError\<close>, any other
  exception of the conversion passes.
\<close>

definition int_claim :: "libs \<Rightarrow> payload \<Rightarrow> string \<Rightarrow> raised + int option" where
  "int_claim L p key =
     (case map_of p key of
        None \<Rightarrow> Inr None
      | Some v \<Rightarrow>
          (case py_int L v of
             Inl f \<Rightarrow> if f = ValueError then Inl (Jose JWTClaimsError) else Inl (Other f)
           | Inr n \<Rightarrow> Inr (Some n)))"

text \<open>
  The validations of the claims, each giving what it raises, if anything. \<open>now\<close> is the
  current time; the library reads it as \<^verbatim>\<open>timegm(datetime.now(UTC).utctimetuple())\<close>, in
  whole seconds, and the leeway is 0.
  \<^item> \<open>iat\<close> must convert to an integer.
  \<^item> \<open>nbf\<close> must convert and not be greater than the current time.
  \<^item> \<open>exp\<close> must convert and not be less than the current time.
  \<^item> \<open>aud\<close>: the service passes no audience, and a token with an \<open>aud\<close> claim of any form
    is refused (invalid claim format, or invalid audience).
  \<^item> \<open>iss\<close>: the service passes no issuer, nothing is validated.
  \<^item> \<open>sub\<close> and \<open>jti\<close> must be strings.
  \<^item> \<open>at_hash\<close>: the service passes no access token to compare with, and a token with an
    \<open>at_hash\<close> claim is refused.
\<close>

definition validate_iat :: "libs \<Rightarrow> payload \<Rightarrow> raised option" where
  "validate_iat L p = (case int_claim L p ''iat'' of Inl r \<Rightarrow> Some r | Inr _ \<Rightarrow> None)"

definition validate_nbf :: "libs \<Rightarrow> payload \<Rightarrow> datetime \<Rightarrow> raised option" where
  "validate_nbf L p now =
     (case int_claim L p ''nbf'' of
        Inl r \<Rightarrow> Some r
      | Inr None \<Rightarrow> None
      | Inr (Some nbf) \<Rightarrow>
          if nbf > timegm_utctimetuple now then Some (Jose JWTClaimsError) else None)"

definition validate_exp :: "libs \<Rightarrow> payload \<Rightarrow> datetime \<Rightarrow> raised option" where
  "validate_exp L p now =
     (case int_claim L p ''exp'' of
        Inl r \<Rightarrow> Some r
      | Inr None \<Rightarrow> None
      | Inr (Some e) \<Rightarrow>
          if e < timegm_utctimetuple now then Some (Jose ExpiredSignatureError) else None)"

definition validate_aud :: "payload \<Rightarrow> raised option" where
  "validate_aud p =
     (case map_of p ''aud'' of None \<Rightarrow> None | Some _ \<Rightarrow> Some (Jose JWTClaimsError))"

definition validate_str :: "string \<Rightarrow> payload \<Rightarrow> raised option" where
  "validate_str key p =
     (case map_of p key of
        None \<Rightarrow> None
      | Some (JStr _) \<Rightarrow> None
      | Some _ \<Rightarrow> Some (Jose JWTClaimsError))"

definition validate_at_hash :: "payload \<Rightarrow> raised option" where
  "validate_at_hash p =
     (case map_of p ''at_hash'' of None \<Rightarrow> None | Some _ \<Rightarrow> Some (Jose JWTClaimsError))"

text \<open>The validations run in this order; the first exception ends the call.\<close>

fun first_raised :: "raised option list \<Rightarrow> raised option" where
  "first_raised [] = None"
| "first_raised (Some r # _) = Some r"
| "first_raised (None # rs) = first_raised rs"

definition validate_claims :: "libs \<Rightarrow> payload \<Rightarrow> datetime \<Rightarrow> raised option" where
  "validate_claims L p now =
     first_raised
       [validate_iat L p, validate_nbf L p now, validate_exp L p now, validate_aud p,
        validate_str ''sub'' p, validate_str ''jti'' p, validate_at_hash p]"

text \<open>
  \<^verbatim>\<open>jwt.decode(token, key, algorithms=[...])\<close> with the library's default options: the
  token must parse, its header algorithm must be among \<open>algorithms\<close>, its signature must
  be the one the key gives for its payload, the payload must be a JSON object, and the
  claims must pass their validations. Every failure before the claims is a \<^verbatim>\<open>JWTError\<close>.
\<close>

definition jwt_decode ::
  "libs \<Rightarrow> token \<Rightarrow> string \<Rightarrow> string list \<Rightarrow> datetime \<Rightarrow> raised + payload" where
  "jwt_decode L token key algorithms now =
     (case token of
        Malformed _ \<Rightarrow> Inl (Jose JWTError)
      | Jws alg body sg \<Rightarrow>
          if alg \<notin> set algorithms then Inl (Jose JWTError)
          else if sg \<noteq> Mac key alg body then Inl (Jose JWTError)
          else (case body of
                  JObj p \<Rightarrow>
                    (case validate_claims L p now of Some r \<Rightarrow> Inl r | None \<Rightarrow> Inr p)
                | _ \<Rightarrow> Inl (Jose JWTError)))"

text \<open>The functions of \<^verbatim>\<open>AuthService\<close>; \<open>now\<close> is what \<^verbatim>\<open>datetime.now(timezone.utc)\<close> returns.\<close>

definition create_access_token :: "libs \<Rightarrow> settings \<Rightarrow> datetime \<Rightarrow> uuid \<Rightarrow> token" where
  "create_access_token L cfg now user_id =
     (let expire = now + timedelta_minutes (access_token_expire_minutes cfg);
          c = \<lparr>claims_sub = uuid_str L user_id, claims_exp = expire, claims_type = ''access''\<rparr>
      in jwt_encode c (secret_key cfg) (algorithm cfg))"

definition create_refresh_token :: "libs \<Rightarrow> settings \<Rightarrow> datetime \<Rightarrow> uuid \<Rightarrow> token" where
  "create_refresh_token L cfg now user_id =
     (let expire = now + timedelta_days (refresh_token_expire_days cfg);
          c = \<lparr>claims_sub = uuid_str L user_id, claims_exp = expire, claims_type = ''refresh''\<rparr>
      in jwt_encode c (secret_key cfg) (algorithm cfg))"

text \<open>
  \<^verbatim>\<open>except JWTError\<close> catches every exception of the library,
  \<^verbatim>\<open>ExpiredSignatureError\<close> and \<^verbatim>\<open>JWTClaimsError\<close> being subclasses of \<^verbatim>\<open>JWTError\<close>, and
  nothing else.
\<close>

definition decode_token :: "libs \<Rightarrow> settings \<Rightarrow> datetime \<Rightarrow> token \<Rightarrow> fault + payload" where
  "decode_token L cfg now token =
     (case jwt_decode L token (secret_key cfg) [algorithm cfg] now of
        Inl (Jose e) \<Rightarrow> Inl (InvalidTokenError (Decode_failed e))
      | Inl (Other f) \<Rightarrow> Inl f
      | Inr p \<Rightarrow> Inr p)"













text \<open>
  The token that carries the claims \<open>p\<close> under a signature made with the configured secret
  and algorithm: what a holder of the secret can produce.
\<close>

definition signed :: "settings \<Rightarrow> payload \<Rightarrow> token" where
  "signed cfg p = Jws (algorithm cfg) (JObj p) (Mac (secret_key cfg) (algorithm cfg) (JObj p))"
section \<open>User store (app/model/user.py, app/repository/user_repository.py)\<close>

text \<open>
  One row of the \<open>users\<close> table. \<open>uid\<close> is the column \<open>id\<close> (the primary key), \<open>email\<close>
  carries a unique index, \<open>username\<close> is nullable.
\<close>

record user =
  uid :: uuid
  email :: string
  password_hash :: string
  username :: "string option"
  is_active :: bool
  created_at :: datetime
  updated_at :: datetime

text \<open>
  The table is the list of its rows. The primary key and the unique index admit at most
  one row per id and per e-mail, so \<^verbatim>\<open>scalar_one_or_none()\<close> returns the row that
  matches, or \<open>None\<close>.
\<close>

type_synonym store = "user list"

definition unique_rows :: "store \<Rightarrow> bool" where
  "unique_rows s = (distinct (map uid s) \<and> distinct (map email s))"

definition get_by_email :: "store \<Rightarrow> string \<Rightarrow> user option" where
  "get_by_email s e = find (\<lambda>u. email u = e) s"

definition get_by_id :: "store \<Rightarrow> uuid \<Rightarrow> user option" where
  "get_by_id s user_id = find (\<lambda>u. uid u = user_id) s"

definition email_exists :: "store \<Rightarrow> string \<Rightarrow> bool" where
  "email_exists s e = (get_by_email s e \<noteq> None)"

text \<open>
  \<^verbatim>\<open>create\<close>: the new row takes its id from \<^verbatim>\<open>uuid.uuid4\<close> (\<open>new_id\<close>), \<open>is_active\<close>
  from its default and both time stamps from the server's \<open>now()\<close>. The commit raises
  \<^verbatim>\<open>IntegrityError\<close> when the e-mail or the id is already in the table.
\<close>

definition create ::
  "store \<Rightarrow> uuid \<Rightarrow> datetime \<Rightarrow> string \<Rightarrow> string \<Rightarrow> string option \<Rightarrow> fault + user \<times> store" where
  "create s new_id now e h name =
     (if list_ex (\<lambda>u. email u = e \<or> uid u = new_id) s then Inl IntegrityError
      else (let u = \<lparr>uid = new_id, email = e, password_hash = h, username = name,
                       is_active = True, created_at = now, updated_at = now\<rparr>
            in Inr (u, s @ [u])))"

text \<open>
  \<^verbatim>\<open>update(user, **kwargs)\<close>. A keyword argument names a column and carries a value of the
  column's type or \<open>None\<close>, or names something that is no column (\<open>Kw_other\<close>: the
  loop skips it, or sets an attribute of the object that is not mapped to the row).
\<close>

datatype kwarg =
    Kw_id "uuid option"
  | Kw_email "string option"
  | Kw_password_hash "string option"
  | Kw_username "string option"
  | Kw_is_active "bool option"
  | Kw_created_at "datetime option"
  | Kw_updated_at "datetime option"
  | Kw_other string


text \<open>The body of the loop: \<^verbatim>\<open>if hasattr(user, key) and value is not None: setattr(...)\<close>.\<close>

fun apply_kwarg :: "user \<Rightarrow> kwarg \<Rightarrow> user" where
  "apply_kwarg u (Kw_id (Some v)) = u\<lparr>uid := v\<rparr>"
| "apply_kwarg u (Kw_email (Some v)) = u\<lparr>email := v\<rparr>"
| "apply_kwarg u (Kw_password_hash (Some v)) = u\<lparr>password_hash := v\<rparr>"
| "apply_kwarg u (Kw_username (Some v)) = u\<lparr>username := Some v\<rparr>"
| "apply_kwarg u (Kw_is_active (Some v)) = u\<lparr>is_active := v\<rparr>"
| "apply_kwarg u (Kw_created_at (Some v)) = u\<lparr>created_at := v\<rparr>"
| "apply_kwarg u (Kw_updated_at (Some v)) = u\<lparr>updated_at := v\<rparr>"
| "apply_kwarg u _ = u"

text \<open>
  After the loop, \<^verbatim>\<open>commit\<close> flushes the object and \<^verbatim>\<open>refresh\<close> reads its row back.
  \<open>usr\<close> is the object as the session loaded it, \<open>s\<close> is the table as the database
  holds it while the call runs: other sessions may have changed it since the object was
  loaded (none commits between the call's \<open>UPDATE\<close> and its reading back).
  \<^item> The flush compares each column of the object with the value that was loaded. With
    no difference nothing is written, and \<^verbatim>\<open>refresh\<close> reads the row of the object's id:
    the call returns that row, or raises \<^verbatim>\<open>InvalidRequestError\<close> when there is none.
  \<^item> With a difference the flush writes one \<open>UPDATE\<close> that assigns the columns that
    differ and addresses the row by the id that was loaded. A column that is not assigned
    keeps the value of the stored row.
  \<^item> \<open>updated_at\<close> is declared with \<^verbatim>\<open>onupdate=func.now()\<close>: an \<open>UPDATE\<close> that does not
    itself assign \<open>updated_at\<close> sets it to the server's \<open>now()\<close>.
  \<^item> \<open>email\<close> and \<open>password_hash\<close> are \<^verbatim>\<open>String(255)\<close>, \<open>username\<close> is \<^verbatim>\<open>String(50)\<close>:
    the database refuses a longer value (\<^verbatim>\<open>DBAPIError\<close>, raised as its subclass
    \<^verbatim>\<open>DataError\<close>).
  \<^item> An \<open>UPDATE\<close> that matches no row makes the flush raise \<^verbatim>\<open>StaleDataError\<close>.
  \<^item> An \<open>UPDATE\<close> that moves the row onto the e-mail or the id of another row violates
    the unique index or the primary key (\<^verbatim>\<open>IntegrityError\<close>).
  \<^item> \<^verbatim>\<open>refresh\<close> then reads the written row, which the call returns.
\<close>

definition column_overflow :: "user \<Rightarrow> user \<Rightarrow> bool" where
  "column_overflow usr u1 =
     ((email u1 \<noteq> email usr \<and> 255 < length (email u1)) \<or>
      (password_hash u1 \<noteq> password_hash usr \<and> 255 < length (password_hash u1)) \<or>
      (username u1 \<noteq> username usr \<and>
         (case username u1 of None \<Rightarrow> False | Some n \<Rightarrow> 50 < length n)))"

definition key_collision :: "store \<Rightarrow> user \<Rightarrow> user \<Rightarrow> bool" where
  "key_collision s usr u1 =
     ((email u1 \<noteq> email usr \<and> list_ex (\<lambda>v. uid v \<noteq> uid usr \<and> email v = email u1) s) \<or>
      (uid u1 \<noteq> uid usr \<and> list_ex (\<lambda>v. uid v = uid u1) s))"

definition written_row :: "datetime \<Rightarrow> user \<Rightarrow> user \<Rightarrow> user \<Rightarrow> user" where
  "written_row now usr u1 r =
     \<lparr>uid = (if uid u1 = uid usr then uid r else uid u1),
      email = (if email u1 = email usr then email r else email u1),
      password_hash =
        (if password_hash u1 = password_hash usr then password_hash r else password_hash u1),
      username = (if username u1 = username usr then username r else username u1),
      is_active = (if is_active u1 = is_active usr then is_active r else is_active u1),
      created_at = (if created_at u1 = created_at usr then created_at r else created_at u1),
      updated_at = (if updated_at u1 = updated_at usr then now else updated_at u1)\<rparr>"

definition update :: "store \<Rightarrow> datetime \<Rightarrow> user \<Rightarrow> kwarg list \<Rightarrow> fault + user \<times> store" where
  "update s now usr kwargs =
     (let u1 = foldl apply_kwarg usr kwargs in
      if u1 = usr then
        (case get_by_id s (uid usr) of
           None \<Rightarrow> Inl InvalidRequestError
         | Some r \<Rightarrow> Inr (r, s))
      else if column_overflow usr u1 then Inl DBAPIError
      else
        (case get_by_id s (uid usr) of
           None \<Rightarrow> Inl StaleDataError
         | Some r \<Rightarrow>
             if key_collision s usr u1 then Inl IntegrityError
             else (let r' = written_row now usr u1 r
                   in Inr (r', map (\<lambda>v. if uid v = uid usr then r' else v) s))))"

section \<open>Authentication service (app/service/auth_service.py)\<close>

text \<open>
  The literal messages of the service's exceptions, in English:
  "this e-mail is already registered", "wrong e-mail or password", "the account has been
  disabled", "invalid refresh token", "invalid access token", "the user does not exist or
  has been disabled".
\<close>

definition msg_email_registered :: message where
  "msg_email_registered = [0x8be5, 0x90ae, 0x7bb1, 0x5df2, 0x88ab, 0x6ce8, 0x518c]"

definition msg_wrong_email_or_password :: message where
  "msg_wrong_email_or_password = [0x90ae, 0x7bb1, 0x6216, 0x5bc6, 0x7801, 0x9519, 0x8bef]"

definition msg_account_disabled :: message where
  "msg_account_disabled = [0x8d26, 0x6237, 0x5df2, 0x88ab, 0x7981, 0x7528]"

definition msg_invalid_refresh_token :: message where
  "msg_invalid_refresh_token = [0x65e0, 0x6548, 0x7684, 0x5237, 0x65b0, 0x4ee4, 0x724c]"

definition msg_invalid_access_token :: message where
  "msg_invalid_access_token = [0x65e0, 0x6548, 0x7684, 0x8bbf, 0x95ee, 0x4ee4, 0x724c]"

definition msg_user_missing_or_disabled :: message where
  "msg_user_missing_or_disabled =
     [0x7528, 0x6237, 0x4e0d, 0x5b58, 0x5728, 0x6216, 0x5df2, 0x88ab, 0x7981, 0x7528]"

record register_request =
  reg_email :: string
  reg_password :: string
  reg_username :: "string option"

record token_response =
  access_token :: token
  refresh_token :: token
  token_type :: string

text \<open>
  \<^verbatim>\<open>register\<close> awaits the repository twice: \<^verbatim>\<open>email_exists\<close>, then \<^verbatim>\<open>create\<close>. Other
  requests may commit between the two; \<open>interleaved\<close> is what they do to the table (the
  identity when the request runs alone). No exception of \<^verbatim>\<open>create\<close> is caught.
\<close>

definition register ::
  "libs \<Rightarrow> (store \<Rightarrow> store) \<Rightarrow> nat \<Rightarrow> uuid \<Rightarrow> datetime \<Rightarrow> store \<Rightarrow> register_request
     \<Rightarrow> fault + user \<times> store" where
  "register L interleaved salt new_id now s data =
     (if email_exists s (reg_email data) then Inl (EmailAlreadyExistsError msg_email_registered)
      else (case hash_password L salt (reg_password data) of
              Inl e \<Rightarrow> Inl e
            | Inr h \<Rightarrow> create (interleaved s) new_id now (reg_email data) h (reg_username data)))"

text \<open>
  \<^verbatim>\<open>login\<close>; \<open>now1\<close> and \<open>now2\<close> are the readings of the clock taken for the access and
  for the refresh token.
\<close>

definition login ::
  "libs \<Rightarrow> settings \<Rightarrow> datetime \<Rightarrow> datetime \<Rightarrow> store \<Rightarrow> string \<Rightarrow> string \<Rightarrow> fault + token_response" where
  "login L cfg now1 now2 s e password =
     (case get_by_email s e of
        None \<Rightarrow> Inl (InvalidCredentialsError msg_wrong_email_or_password)
      | Some usr \<Rightarrow>
          (case verify_password L password (password_hash usr) of
             Inl err \<Rightarrow> Inl err
           | Inr ok \<Rightarrow>
               if \<not> ok then Inl (InvalidCredentialsError msg_wrong_email_or_password)
               else if \<not> is_active usr then Inl (InvalidCredentialsError msg_account_disabled)
               else Inr \<lparr>access_token = create_access_token L cfg now1 (uid usr),
                         refresh_token = create_refresh_token L cfg now2 (uid usr),
                         token_type = ''bearer''\<rparr>))"

text \<open>
  \<^verbatim>\<open>uuid.UUID(payload.get("sub"))\<close>: \<^verbatim>\<open>payload.get\<close> gives \<open>None\<close> for a missing claim, and
  \<^verbatim>\<open>uuid.UUID(None)\<close> raises \<^verbatim>\<open>TypeError\<close>; on a string that is no UUID it raises
  \<^verbatim>\<open>ValueError\<close>; on a value that is no string it raises \<^verbatim>\<open>AttributeError\<close> (no decoded
  payload has such a \<open>sub\<close>). None of these is caught.
\<close>

definition uuid_of_sub :: "libs \<Rightarrow> payload \<Rightarrow> fault + uuid" where
  "uuid_of_sub L p =
     (case map_of p ''sub'' of
        None \<Rightarrow> Inl TypeError
      | Some (JStr t) \<Rightarrow> (case uuid_parse L t of None \<Rightarrow> Inl ValueError | Some i \<Rightarrow> Inr i)
      | Some _ \<Rightarrow> Inl AttributeError)"

definition refresh_tokens ::
  "libs \<Rightarrow> settings \<Rightarrow> datetime \<Rightarrow> datetime \<Rightarrow> datetime \<Rightarrow> store \<Rightarrow> token \<Rightarrow> fault + token_response" where
  "refresh_tokens L cfg now now1 now2 s tok =
     (case decode_token L cfg now tok of
        Inl err \<Rightarrow> Inl err
      | Inr p \<Rightarrow>
          if map_of p ''type'' \<noteq> Some (JStr ''refresh'')
          then Inl (InvalidTokenError (Plain msg_invalid_refresh_token))
          else (case uuid_of_sub L p of
                  Inl err \<Rightarrow> Inl err
                | Inr user_id \<Rightarrow>
                    (case get_by_id s user_id of
                       None \<Rightarrow> Inl (InvalidTokenError (Plain msg_user_missing_or_disabled))
                     | Some usr \<Rightarrow>
                         if \<not> is_active usr
                         then Inl (InvalidTokenError (Plain msg_user_missing_or_disabled))
                         else Inr \<lparr>access_token = create_access_token L cfg now1 (uid usr),
                                   refresh_token = create_refresh_token L cfg now2 (uid usr),
                                   token_type = ''bearer''\<rparr>)))"

definition get_current_user ::
  "libs \<Rightarrow> settings \<Rightarrow> datetime \<Rightarrow> store \<Rightarrow> token \<Rightarrow> fault + user" where
  "get_current_user L cfg now s tok =
     (case decode_token L cfg now tok of
        Inl err \<Rightarrow> Inl err
      | Inr p \<Rightarrow>
          if map_of p ''type'' \<noteq> Some (JStr ''access'')
          then Inl (InvalidTokenError (Plain msg_invalid_access_token))
          else (case uuid_of_sub L p of
                  Inl err \<Rightarrow> Inl err
                | Inr user_id \<Rightarrow>
                    (case get_by_id s user_id of
                       None \<Rightarrow> Inl (InvalidTokenError (Plain msg_user_missing_or_disabled))
                     | Some usr \<Rightarrow>
                         if \<not> is_active usr
                         then Inl (InvalidTokenError (Plain msg_user_missing_or_disabled))
                         else Inr usr)))"

section \<open>Profile update (app/schema/auth.py, app/api/auth.py)\<close>

record user_update_request =
  upd_username :: "string option"

text \<open>
  \<^verbatim>\<open>username: str | None = Field(None, min_length=2, max_length=50)\<close> of
  \<^verbatim>\<open>UserUpdateRequest\<close>: what the field accepts.
\<close>

definition username_field :: "string option \<Rightarrow> validation_error + string option" where
  "username_field v =
     (case v of
        None \<Rightarrow> Inr None
      | Some n \<Rightarrow>
          if length n < 2 then Inl String_too_short
          else if 50 < length n then Inl String_too_long
          else Inr (Some n))"

text \<open>\<^verbatim>\<open>PUT /auth/me\<close>: \<^verbatim>\<open>user_repo.update(current_user, username=data.username)\<close>.\<close>

definition update_current_user ::
  "store \<Rightarrow> datetime \<Rightarrow> user_update_request \<Rightarrow> user \<Rightarrow> fault + user \<times> store" where
  "update_current_user s now data current_user =
     update s now current_user [Kw_username (upd_username data)]"

section \<open>Sample data\<close>

text \<open>
  Concrete values on which the model is run. \<open>sample_libs\<close> stands in for the libraries:
  an id is written in unary, the hash of a password is the password behind a bcrypt
  identifier, and no string or float converts to an integer. It fixes the parameters of
  the model for an evaluation; it is no model of bcrypt, of the UUID syntax or of
  \<^verbatim>\<open>int\<close>.
\<close>

definition sample_libs :: libs where
  "sample_libs =
     \<lparr>uuid_str = (\<lambda>u. case u of UUID n \<Rightarrow> replicate n CHR ''1''),
      uuid_parse = (\<lambda>t. if t = replicate (length t) CHR ''1'' then Some (UUID (length t)) else None),
      bcrypt_hash = (\<lambda>salt pw. Inr (''$2b$'' @ pw)),
      bcrypt_verify = (\<lambda>pw h. Inr (h = ''$2b$'' @ pw)),
      int_of_str = (\<lambda>t. None),
      int_of_float = (\<lambda>t. Inl ValueError)\<rparr>"

definition alice :: user where
  "alice = \<lparr>uid = UUID 1, email = ''a@x.com'', password_hash = ''$2b$Abcd123!'',
     username = Some ''alice'', is_active = True, created_at = 0, updated_at = 0\<rparr>"

definition bob :: user where
  "bob = \<lparr>uid = UUID 2, email = ''b@x.com'', password_hash = ''$2b$Efgh456?'',
     username = None, is_active = False, created_at = 0, updated_at = 0\<rparr>"

section \<open>Password rules\<close>

lemma upper_class_iff: "upper_class c = (c \<in> set (class_members Uppercase))"
  by (simp add: upper_class_def in_range_def codepoints_def) arith

lemma lower_class_iff: "lower_class c = (c \<in> set (class_members Lowercase))"
  by (simp add: lower_class_def in_range_def codepoints_def) arith

lemma run_of_ten: "(c \<in> set (map (\<lambda>d. z + d) [0..<10])) = (z \<le> c \<and> c < z + 10)"
proof
  assume "c \<in> set (map (\<lambda>d. z + d) [0..<10])"
  then show "z \<le> c \<and> c < z + 10" by auto
next
  assume "z \<le> c \<and> c < z + 10"
  then have "c - z < 10" and "c = z + (c - z)" by linarith+
  then show "c \<in> set (map (\<lambda>d. z + d) [0..<10])"
    by (metis atLeast0LessThan image_eqI lessThan_iff list.set_map set_upt)
qed

lemma digit_class_iff: "digit_class c = (c \<in> set (class_members Digit))"
proof -
  have "(c \<in> set (concat (map (\<lambda>z. map (\<lambda>d. z + d) [0..<10]) zs))) =
      list_ex (\<lambda>z. z \<le> c \<and> c < z + 10) zs" for zs
    by (induction zs) (auto simp: run_of_ten simp del: upt.simps)
  then show ?thesis
    by (simp add: digit_class_def del: upt.simps)
qed

lemma symbol_class_iff: "symbol_class c = (c \<in> set (class_members Symbol))"
  by (simp add: symbol_class_def)


lemma re_search_class:
  "re_search upper_class v = contains_class Uppercase v"
  "re_search lower_class v = contains_class Lowercase v"
  "re_search digit_class v = contains_class Digit v"
  "re_search symbol_class v = contains_class Symbol v"
  by (simp_all add: re_search_def contains_class_def list_ex_iff
        upper_class_iff lower_class_iff digit_class_iff symbol_class_iff del: class_members.simps)

lemma password_field_accepts:
  "(\<exists>p. password_field v = Inr p) =
     (8 \<le> length v \<and> length v \<le> 128 \<and> contains_class Uppercase v \<and>
      contains_class Lowercase v \<and> contains_class Digit v \<and> contains_class Symbol v)"
  by (auto simp: password_field_def validate_password_def re_search_class)

lemmas password_eval = password_field_def validate_password_def re_search_def upper_class_def
  lower_class_def digit_class_def decimal_zeros_def symbol_class_def in_range_def
  symbol_chars_def codepoints_def

lemma sample_alllowercase:
  "password_field (codepoints ''alllowercase1!'') = Inl (Value_error (class_message Uppercase))"
  by (simp add: password_eval)

lemma sample_allupper:
  "password_field (codepoints ''ALLUPPER123!'') = Inl (Value_error (class_message Lowercase))"
  by (simp add: password_eval)

lemma sample_nodigits:
  "password_field (codepoints ''NoDigits!!'') = Inl (Value_error (class_message Digit))"
  by (simp add: password_eval)

lemma sample_nosymbol:
  "password_field (codepoints ''NoSymbol123'') = Inl (Value_error (class_message Symbol))"
  by (simp add: password_eval)

lemma sample_reasons:
  "names_missing_class (Value_error (class_message Uppercase)) (codepoints ''alllowercase1!'')"
  "names_missing_class (Value_error (class_message Lowercase)) (codepoints ''ALLUPPER123!'')"
  "names_missing_class (Value_error (class_message Digit)) (codepoints ''NoDigits!!'')"
  "names_missing_class (Value_error (class_message Symbol)) (codepoints ''NoSymbol123'')"
  by (simp_all add: names_missing_class_def re_search_class [symmetric] re_search_def
        upper_class_def lower_class_def digit_class_def decimal_zeros_def symbol_class_def
        in_range_def symbol_chars_def codepoints_def)

text \<open>
  The digits of every script count: a password whose only digit is the Arabic-Indic digit
  three (code point \<open>0x663\<close>) is accepted.
\<close>

lemma arabic_indic_digit_accepted:
  "password_field (codepoints ''Abcdefg'' @ [0x663] @ codepoints ''!'') =
     Inr (codepoints ''Abcdefg'' @ [0x663] @ codepoints ''!'')"
  by (simp add: password_eval)

text \<open>
  C7, as stated, asks that each of the five sample passwords be rejected with a reason
  naming a character class it lacks. \<^verbatim>\<open>"short1"\<close> has six characters: the length
  constraint of the field rejects it before any character class is looked at, and that
  reason names no class.
\<close>

theorem short1_rejected_for_length:
  "password_field (codepoints ''short1'') = Inl String_too_short \<and>
   \<not> names_missing_class String_too_short (codepoints ''short1'')"
  by (simp add: password_field_def names_missing_class_def codepoints_def)

text \<open>
  C7, amended: a password is accepted if and only if it has between 8 and 128 characters
  and holds an uppercase letter \<^verbatim>\<open>A\<close> to \<^verbatim>\<open>Z\<close>, a lowercase letter \<^verbatim>\<open>a\<close> to \<^verbatim>\<open>z\<close>, a
  decimal digit of any script and a symbol of the punctuation set. Of the five samples,
  \<^verbatim>\<open>"short1"\<close> is rejected for its length; each of the other four is rejected by the
  validator with the message of a class it lacks (uppercase, lowercase, digit, symbol, in
  that order).
\<close>

theorem password_rules:
  "((\<exists>p. password_field v = Inr p) =
      (8 \<le> length v \<and> length v \<le> 128 \<and> contains_class Uppercase v \<and>
       contains_class Lowercase v \<and> contains_class Digit v \<and> contains_class Symbol v)) \<and>
   password_field (codepoints ''short1'') = Inl String_too_short \<and>
   (password_field (codepoints ''alllowercase1!'') = Inl (Value_error (class_message Uppercase)) \<and>
    names_missing_class (Value_error (class_message Uppercase)) (codepoints ''alllowercase1!'')) \<and>
   (password_field (codepoints ''ALLUPPER123!'') = Inl (Value_error (class_message Lowercase)) \<and>
    names_missing_class (Value_error (class_message Lowercase)) (codepoints ''ALLUPPER123!'')) \<and>
   (password_field (codepoints ''NoDigits!!'') = Inl (Value_error (class_message Digit)) \<and>
    names_missing_class (Value_error (class_message Digit)) (codepoints ''NoDigits!!'')) \<and>
   (password_field (codepoints ''NoSymbol123'') = Inl (Value_error (class_message Symbol)) \<and>
    names_missing_class (Value_error (class_message Symbol)) (codepoints ''NoSymbol123''))"
proof -
  have short: "password_field (codepoints ''short1'') = Inl String_too_short"
    by (simp add: password_field_def codepoints_def)
  show ?thesis
    using password_field_accepts [of v] short sample_alllowercase sample_allupper
      sample_nodigits sample_nosymbol sample_reasons
    by blast
qed

section \<open>Login failures\<close>

lemma messages_differ: "msg_account_disabled \<noteq> msg_wrong_email_or_password"
  by (simp add: msg_account_disabled_def msg_wrong_email_or_password_def)

lemmas sample_eval = sample_libs_def alice_def bob_def get_by_email_def verify_password_def
  pwd_context_verify_def identify_def bcrypt_idents_def startswith_def

text \<open>
  C1, as stated, asks for one message in the three failure cases of \<^verbatim>\<open>login\<close>. On a
  table holding the disabled account of \<open>bob\<close>, the correct password is answered with
  "the account has been disabled", a wrong password and an unknown e-mail with "wrong
  e-mail or password": the two messages differ, and the message is what the route hands
  to the client as the detail of its 401 response.
\<close>

theorem disabled_account_message_differs:
  "login sample_libs default_settings 0 0 [alice, bob] ''b@x.com'' ''Efgh456?'' =
     Inl (InvalidCredentialsError msg_account_disabled) \<and>
   login sample_libs default_settings 0 0 [alice, bob] ''b@x.com'' ''wrong'' =
     Inl (InvalidCredentialsError msg_wrong_email_or_password) \<and>
   login sample_libs default_settings 0 0 [alice, bob] ''nobody@x.com'' ''Efgh456?'' =
     Inl (InvalidCredentialsError msg_wrong_email_or_password) \<and>
   msg_account_disabled \<noteq> msg_wrong_email_or_password"
  by (simp add: login_def sample_eval messages_differ)

text \<open>
  C1, amended: login fails with \<^verbatim>\<open>InvalidCredentialsError\<close> in all three cases. An
  unknown e-mail and a wrong password carry the same message; a disabled account with the
  correct password carries a message of its own, different from that one.
\<close>

theorem login_failure_messages:
  "(get_by_email s e = None \<longrightarrow>
      login L cfg now1 now2 s e pw = Inl (InvalidCredentialsError msg_wrong_email_or_password)) \<and>
   (get_by_email s e = Some usr \<and> verify_password L pw (password_hash usr) = Inr False \<longrightarrow>
      login L cfg now1 now2 s e pw = Inl (InvalidCredentialsError msg_wrong_email_or_password)) \<and>
   (get_by_email s e = Some usr \<and> verify_password L pw (password_hash usr) = Inr True \<and>
      \<not> is_active usr \<longrightarrow>
      login L cfg now1 now2 s e pw = Inl (InvalidCredentialsError msg_account_disabled)) \<and>
   msg_account_disabled \<noteq> msg_wrong_email_or_password"
  by (simp add: login_def messages_differ)

theorem login_failure_messages_witness:
  "get_by_email [alice, bob] ''nobody@x.com'' = None \<and>
   login sample_libs default_settings 0 0 [alice, bob] ''nobody@x.com'' ''Efgh456?'' =
     Inl (InvalidCredentialsError msg_wrong_email_or_password) \<and>
   get_by_email [alice, bob] ''b@x.com'' = Some bob \<and>
   verify_password sample_libs ''wrong'' (password_hash bob) = Inr False \<and>
   login sample_libs default_settings 0 0 [alice, bob] ''b@x.com'' ''wrong'' =
     Inl (InvalidCredentialsError msg_wrong_email_or_password) \<and>
   verify_password sample_libs ''Efgh456?'' (password_hash bob) = Inr True \<and>
   \<not> is_active bob \<and>
   login sample_libs default_settings 0 0 [alice, bob] ''b@x.com'' ''Efgh456?'' =
     Inl (InvalidCredentialsError msg_account_disabled)"
proof -
  have none: "get_by_email [alice, bob] ''nobody@x.com'' = None"
    by (simp add: sample_eval)
  have some: "get_by_email [alice, bob] ''b@x.com'' = Some bob"
    by (simp add: sample_eval)
  have wrong: "verify_password sample_libs ''wrong'' (password_hash bob) = Inr False"
    by (simp add: sample_eval)
  have right: "verify_password sample_libs ''Efgh456?'' (password_hash bob) = Inr True"
    by (simp add: sample_eval)
  have off: "\<not> is_active bob"
    by (simp add: bob_def)
  show ?thesis
    using none some wrong right off
      login_failure_messages [of "[alice, bob]" "''nobody@x.com''" sample_libs default_settings 0 0
        "''Efgh456?''" bob]
      login_failure_messages [of "[alice, bob]" "''b@x.com''" sample_libs default_settings 0 0
        "''wrong''" bob]
      login_failure_messages [of "[alice, bob]" "''b@x.com''" sample_libs default_settings 0 0
        "''Efgh456?''" bob]
    by simp
qed

section \<open>Registration with an e-mail that is already present\<close>

lemma email_exists_iff: "email_exists s e = list_ex (\<lambda>u. email u = e) s"
  by (auto simp: email_exists_def get_by_email_def find_None_iff list_ex_iff)

lemma create_duplicate: "email_exists s e \<Longrightarrow> create s new_id now e h name = Inl IntegrityError"
  by (auto simp: create_def email_exists_iff list_ex_iff)

text \<open>
  C2, as stated, has \<^verbatim>\<open>register\<close> fail with \<^verbatim>\<open>EmailAlreadyExistsError\<close> also when it is
  the unique index that detects the duplicate. Here the table is empty at the pre-check
  and another request commits \<open>alice\<close>'s row before the insert: the \<^verbatim>\<open>IntegrityError\<close>
  of the commit leaves \<^verbatim>\<open>register\<close> as it is.
\<close>

theorem constraint_violation_not_translated:
  "\<not> email_exists [] ''a@x.com'' \<and>
   email_exists ((\<lambda>s. s @ [alice]) []) ''a@x.com'' \<and>
   register sample_libs (\<lambda>s. s @ [alice]) 7 (UUID 3) 0 []
     \<lparr>reg_email = ''a@x.com'', reg_password = ''Zyxw987!'', reg_username = None\<rparr> =
     Inl IntegrityError"
  by (simp add: register_def create_def hash_password_def pwd_context_hash_def
        email_exists_def get_by_email_def sample_libs_def alice_def)

text \<open>
  C2, amended: when the pre-check finds the e-mail, \<^verbatim>\<open>register\<close> fails with
  \<^verbatim>\<open>EmailAlreadyExistsError\<close>; when the pre-check does not find it and the e-mail is in the
  table at the insert, \<^verbatim>\<open>register\<close> fails with the store's \<^verbatim>\<open>IntegrityError\<close>, which
  it does not translate.
\<close>

theorem register_duplicate_email:
  "(email_exists s (reg_email data) \<longrightarrow>
      register L interleaved salt new_id now s data =
        Inl (EmailAlreadyExistsError msg_email_registered)) \<and>
   (\<not> email_exists s (reg_email data) \<and>
    hash_password L salt (reg_password data) = Inr h \<and>
    email_exists (interleaved s) (reg_email data) \<longrightarrow>
      register L interleaved salt new_id now s data = Inl IntegrityError)"
  by (simp add: register_def create_duplicate)

theorem register_duplicate_email_witness:
  "email_exists [alice] ''a@x.com'' \<and>
   register sample_libs (\<lambda>s. s) 7 (UUID 3) 0 [alice]
     \<lparr>reg_email = ''a@x.com'', reg_password = ''Zyxw987!'', reg_username = None\<rparr> =
     Inl (EmailAlreadyExistsError msg_email_registered) \<and>
   \<not> email_exists [] ''a@x.com'' \<and>
   hash_password sample_libs 7 ''Zyxw987!'' = Inr ''$2b$Zyxw987!'' \<and>
   email_exists ((\<lambda>s. s @ [alice]) []) ''a@x.com'' \<and>
   register sample_libs (\<lambda>s. s @ [alice]) 7 (UUID 3) 0 []
     \<lparr>reg_email = ''a@x.com'', reg_password = ''Zyxw987!'', reg_username = None\<rparr> =
     Inl IntegrityError"
proof -
  have present: "email_exists [alice] ''a@x.com''"
    by (simp add: email_exists_def get_by_email_def alice_def)
  have absent: "\<not> email_exists [] ''a@x.com''"
    by (simp add: email_exists_def get_by_email_def)
  have hashed: "hash_password sample_libs 7 ''Zyxw987!'' = Inr ''$2b$Zyxw987!''"
    by (simp add: hash_password_def pwd_context_hash_def sample_libs_def)
  have raced: "email_exists ((\<lambda>s. s @ [alice]) []) ''a@x.com''"
    by (simp add: email_exists_def get_by_email_def alice_def)
  show ?thesis
    using present absent hashed raced
      register_duplicate_email [of "[alice]"
        "\<lparr>reg_email = ''a@x.com'', reg_password = ''Zyxw987!'', reg_username = None\<rparr>"
        sample_libs "\<lambda>s. s" 7 "UUID 3" 0 "''$2b$Zyxw987!''"]
      register_duplicate_email [of "[]"
        "\<lparr>reg_email = ''a@x.com'', reg_password = ''Zyxw987!'', reg_username = None\<rparr>"
        sample_libs "\<lambda>s. s @ [alice]" 7 "UUID 3" 0 "''$2b$Zyxw987!''"]
    by simp
qed

section \<open>Verification against a malformed hash\<close>

text \<open>
  C3, as stated, has \<^verbatim>\<open>verify\<close> return \<open>False\<close> for a malformed hash. The string
  \<^verbatim>\<open>"not-a-hash"\<close> starts with no bcrypt identifier: the context raises
  \<^verbatim>\<open>UnknownHashError\<close>, and \<^verbatim>\<open>verify_password\<close>, which has no handler, lets it pass.
\<close>

theorem malformed_hash_raises:
  "verify_password sample_libs ''Abcd123!'' ''not-a-hash'' = Inl UnknownHashError"
  by (simp add: verify_password_def pwd_context_verify_def identify_def bcrypt_idents_def
        startswith_def)

text \<open>
  C3, amended: \<^verbatim>\<open>verify_password\<close> returns what the library's verification returns and
  catches nothing. A hash string that no scheme identifies raises \<^verbatim>\<open>UnknownHashError\<close>;
  a hash identified as bcrypt gives the handler's result, a boolean or the handler's own
  exception.
\<close>

theorem verify_password_result:
  "(\<not> identify h \<longrightarrow> verify_password L p h = Inl UnknownHashError) \<and>
   (identify h \<longrightarrow> verify_password L p h = bcrypt_verify L p h)"
  by (simp add: verify_password_def pwd_context_verify_def)

theorem verify_password_result_witness:
  "\<not> identify ''not-a-hash'' \<and>
   verify_password sample_libs ''Abcd123!'' ''not-a-hash'' = Inl UnknownHashError \<and>
   identify ''$2b$Abcd123!'' \<and>
   verify_password sample_libs ''Abcd123!'' ''$2b$Abcd123!'' = Inr True \<and>
   verify_password sample_libs ''wrong'' ''$2b$Abcd123!'' = Inr False"
proof -
  have no: "\<not> identify ''not-a-hash''"
    by (simp add: identify_def bcrypt_idents_def startswith_def)
  have yes: "identify ''$2b$Abcd123!''"
    by (simp add: identify_def bcrypt_idents_def startswith_def)
  show ?thesis
    using no yes
      verify_password_result [of "''not-a-hash''" sample_libs "''Abcd123!''"]
      verify_password_result [of "''$2b$Abcd123!''" sample_libs "''Abcd123!''"]
      verify_password_result [of "''$2b$Abcd123!''" sample_libs "''wrong''"]
    by (simp add: sample_libs_def)
qed

section \<open>Decoding tokens\<close>

subsection \<open>Whole seconds\<close>











subsection \<open>The validations of the claims\<close>







subsection \<open>What \<^verbatim>\<open>decode_token\<close> answers\<close>

lemma decode_signed:
  "decode_token L cfg now (signed cfg p) =
     (case validate_claims L p now of
        None \<Rightarrow> Inr p
      | Some (Jose e) \<Rightarrow> Inl (InvalidTokenError (Decode_failed e))
      | Some (Other f) \<Rightarrow> Inl f)"
  by (simp add: signed_def decode_token_def jwt_decode_def split: option.splits raised.splits)










subsection \<open>The tokens the service issues\<close>


lemma refresh_token_raw:
  "create_refresh_token L cfg now user_id =
     signed cfg [(''sub'', JStr (uuid_str L user_id)),
                 (''exp'', JInt (timegm_utctimetuple
                    (now + timedelta_days (refresh_token_expire_days cfg)))),
                 (''type'', JStr ''refresh'')]"
  by (simp add: create_refresh_token_def jwt_encode_def signed_def Let_def)

lemma validate_issued:
  "validate_claims L [(''sub'', JStr t), (''exp'', JInt e), (''type'', JStr k)] now =
     (if e < timegm_utctimetuple now then Some (Jose ExpiredSignatureError) else None)"
  by (simp add: validate_claims_def validate_iat_def validate_nbf_def validate_exp_def
        validate_aud_def validate_str_def validate_at_hash_def int_claim_def py_int_def)

lemma decode_issued:
  "decode_token L cfg now
     (signed cfg [(''sub'', JStr t), (''exp'', JInt e), (''type'', JStr k)]) =
     (if e < timegm_utctimetuple now
      then Inl (InvalidTokenError (Decode_failed ExpiredSignatureError))
      else Inr [(''sub'', JStr t), (''exp'', JInt e), (''type'', JStr k)])"
  by (simp add: decode_signed validate_issued)






subsection \<open>The statement about \<^verbatim>\<open>decode_token\<close>\<close>





section \<open>Round trip of a fresh token\<close>




section \<open>Refreshing tokens and resolving the current user\<close>

text \<open>
  Both operations succeed only on a token that decodes, carries the expected type and
  names an active stored user; a wrong type, an unknown user and an inactive user are
  answered with \<^verbatim>\<open>InvalidTokenError\<close>; a refresh token is no access token.
\<close>

lemma get_current_user_success:
  "get_current_user L cfg now s tok = Inr usr \<Longrightarrow>
     \<exists>p i. decode_token L cfg now tok = Inr p \<and> map_of p ''type'' = Some (JStr ''access'') \<and>
       uuid_of_sub L p = Inr i \<and> get_by_id s i = Some usr \<and> is_active usr"
  by (auto simp: get_current_user_def split: sum.splits if_splits option.splits)

lemma refresh_tokens_success:
  "refresh_tokens L cfg now now1 now2 s tok = Inr r \<Longrightarrow>
     \<exists>p i usr. decode_token L cfg now tok = Inr p \<and>
       map_of p ''type'' = Some (JStr ''refresh'') \<and>
       uuid_of_sub L p = Inr i \<and> get_by_id s i = Some usr \<and> is_active usr"
  by (auto simp: refresh_tokens_def split: sum.splits if_splits option.splits)

text \<open>The \<open>sub\<close> of a decoded payload is absent or a string.\<close>

lemma validate_claims_sub:
  assumes "validate_claims L p now = None"
  shows "validate_str ''sub'' p = None"
proof -
  have first: "first_raised [a, b, c, d, e, g, h] = None \<Longrightarrow> e = None" for a b c d e g h
    by (cases a; cases b; cases c; cases d; cases e) simp_all
  from first [OF assms [unfolded validate_claims_def]] show ?thesis .
qed

lemma decoded_sub:
  assumes "decode_token L cfg now tok = Inr p"
  shows "map_of p ''sub'' = None \<or> (\<exists>t. map_of p ''sub'' = Some (JStr t))"
proof -
  have "validate_claims L p now = None"
    using assms
    by (cases tok)
       (auto simp: decode_token_def jwt_decode_def
          split: json.splits option.splits raised.splits sum.splits if_splits)
  then have "validate_str ''sub'' p = None"
    by (rule validate_claims_sub)
  then show ?thesis
    by (auto simp: validate_str_def split: option.splits json.splits)
qed

lemma get_current_user_faults:
  assumes "decode_token L cfg now tok = Inr p" and "get_current_user L cfg now s tok = Inl f"
  shows "(\<exists>m. f = InvalidTokenError m) \<or> f = TypeError \<or> f = ValueError"
  using assms decoded_sub [OF assms(1)]
  by (auto simp: get_current_user_def uuid_of_sub_def
        split: sum.splits if_splits option.splits)

lemma refresh_tokens_faults:
  assumes "decode_token L cfg now tok = Inr p"
    and "refresh_tokens L cfg now now1 now2 s tok = Inl f"
  shows "(\<exists>m. f = InvalidTokenError m) \<or> f = TypeError \<or> f = ValueError"
  using assms decoded_sub [OF assms(1)]
  by (auto simp: refresh_tokens_def uuid_of_sub_def
        split: sum.splits if_splits option.splits)

lemma refresh_token_is_no_access_token:
  "decode_token L cfg now (create_refresh_token L' cfg now0 user_id) = Inr p \<Longrightarrow>
     get_current_user L cfg now s (create_refresh_token L' cfg now0 user_id) =
       Inl (InvalidTokenError (Plain msg_invalid_access_token))"
  by (auto simp: get_current_user_def refresh_token_raw decode_issued
        split: if_splits)

lemma wrong_type_missing_or_inactive:
  assumes "decode_token L cfg now tok = Inr p"
  shows "map_of p ''type'' \<noteq> Some (JStr ''access'') \<Longrightarrow>
           get_current_user L cfg now s tok = Inl (InvalidTokenError (Plain msg_invalid_access_token))"
    and "map_of p ''type'' = Some (JStr ''access'') \<Longrightarrow> uuid_of_sub L p = Inr i \<Longrightarrow>
           get_by_id s i = None \<Longrightarrow>
           get_current_user L cfg now s tok =
             Inl (InvalidTokenError (Plain msg_user_missing_or_disabled))"
    and "map_of p ''type'' = Some (JStr ''access'') \<Longrightarrow> uuid_of_sub L p = Inr i \<Longrightarrow>
           get_by_id s i = Some usr \<Longrightarrow> \<not> is_active usr \<Longrightarrow>
           get_current_user L cfg now s tok =
             Inl (InvalidTokenError (Plain msg_user_missing_or_disabled))"
  using assms by (simp_all add: get_current_user_def)

lemma wrong_type_missing_or_inactive_refresh:
  assumes "decode_token L cfg now tok = Inr p"
  shows "map_of p ''type'' \<noteq> Some (JStr ''refresh'') \<Longrightarrow>
           refresh_tokens L cfg now now1 now2 s tok =
             Inl (InvalidTokenError (Plain msg_invalid_refresh_token))"
    and "map_of p ''type'' = Some (JStr ''refresh'') \<Longrightarrow> uuid_of_sub L p = Inr i \<Longrightarrow>
           get_by_id s i = None \<Longrightarrow>
           refresh_tokens L cfg now now1 now2 s tok =
             Inl (InvalidTokenError (Plain msg_user_missing_or_disabled))"
    and "map_of p ''type'' = Some (JStr ''refresh'') \<Longrightarrow> uuid_of_sub L p = Inr i \<Longrightarrow>
           get_by_id s i = Some usr \<Longrightarrow> \<not> is_active usr \<Longrightarrow>
           refresh_tokens L cfg now now1 now2 s tok =
             Inl (InvalidTokenError (Plain msg_user_missing_or_disabled))"
  using assms by (simp_all add: refresh_tokens_def)

text \<open>
  C6 asks that a token without \<open>sub\<close> be answered with \<^verbatim>\<open>InvalidTokenError\<close>. On a token
  signed with the configured secret, not expired, of the expected type and without
  \<open>sub\<close>, both operations raise \<^verbatim>\<open>TypeError\<close> instead (the \<open>None\<close> of \<^verbatim>\<open>payload.get\<close>
  goes into \<^verbatim>\<open>uuid.UUID\<close>); on such a token whose \<open>sub\<close> is no UUID they raise
  \<^verbatim>\<open>ValueError\<close>.
\<close>

theorem missing_sub_raises_type_error:
  "get_current_user sample_libs default_settings 0 [alice]
     (Jws ''HS256'' (JObj [(''exp'', JInt 1800), (''type'', JStr ''access'')])
        (Mac ''your-super-secret-key-change-this-in-production'' ''HS256''
           (JObj [(''exp'', JInt 1800), (''type'', JStr ''access'')]))) =
     Inl TypeError \<and>
   refresh_tokens sample_libs default_settings 0 0 0 [alice]
     (Jws ''HS256'' (JObj [(''exp'', JInt 1800), (''type'', JStr ''refresh'')])
        (Mac ''your-super-secret-key-change-this-in-production'' ''HS256''
           (JObj [(''exp'', JInt 1800), (''type'', JStr ''refresh'')]))) =
     Inl TypeError \<and>
   get_current_user sample_libs default_settings 0 [alice]
     (Jws ''HS256''
        (JObj [(''sub'', JStr ''alice''), (''exp'', JInt 1800), (''type'', JStr ''access'')])
        (Mac ''your-super-secret-key-change-this-in-production'' ''HS256''
           (JObj [(''sub'', JStr ''alice''), (''exp'', JInt 1800),
                  (''type'', JStr ''access'')]))) =
     Inl ValueError"
  by (simp add: get_current_user_def refresh_tokens_def decode_token_def jwt_decode_def
        validate_claims_def validate_iat_def validate_nbf_def validate_exp_def
        validate_aud_def validate_str_def validate_at_hash_def int_claim_def py_int_def
        uuid_of_sub_def default_settings_def sample_libs_def timegm_utctimetuple_def)

section \<open>Updating a user\<close>

subsection \<open>The loop over the keyword arguments\<close>

lemma apply_kwarg_fields:
  "uid (apply_kwarg u k) = (case k of Kw_id (Some v) \<Rightarrow> v | _ \<Rightarrow> uid u)"
  "email (apply_kwarg u k) = (case k of Kw_email (Some v) \<Rightarrow> v | _ \<Rightarrow> email u)"
  "password_hash (apply_kwarg u k) =
     (case k of Kw_password_hash (Some v) \<Rightarrow> v | _ \<Rightarrow> password_hash u)"
  "username (apply_kwarg u k) = (case k of Kw_username (Some v) \<Rightarrow> Some v | _ \<Rightarrow> username u)"
  "is_active (apply_kwarg u k) = (case k of Kw_is_active (Some v) \<Rightarrow> v | _ \<Rightarrow> is_active u)"
  "created_at (apply_kwarg u k) = (case k of Kw_created_at (Some v) \<Rightarrow> v | _ \<Rightarrow> created_at u)"
  "updated_at (apply_kwarg u k) = (case k of Kw_updated_at (Some v) \<Rightarrow> v | _ \<Rightarrow> updated_at u)"
  by (cases "(u, k)" rule: apply_kwarg.cases; simp)+

lemma frame_uid:
  "\<forall>v. Kw_id (Some v) \<notin> set ks \<Longrightarrow> uid (foldl apply_kwarg u ks) = uid u"
  by (induction ks arbitrary: u)
     (auto simp: apply_kwarg_fields split: kwarg.splits option.splits)

lemma frame_email:
  "\<forall>v. Kw_email (Some v) \<notin> set ks \<Longrightarrow> email (foldl apply_kwarg u ks) = email u"
  by (induction ks arbitrary: u)
     (auto simp: apply_kwarg_fields split: kwarg.splits option.splits)

lemma frame_password_hash:
  "\<forall>v. Kw_password_hash (Some v) \<notin> set ks \<Longrightarrow>
     password_hash (foldl apply_kwarg u ks) = password_hash u"
  by (induction ks arbitrary: u)
     (auto simp: apply_kwarg_fields split: kwarg.splits option.splits)

lemma frame_username:
  "\<forall>v. Kw_username (Some v) \<notin> set ks \<Longrightarrow> username (foldl apply_kwarg u ks) = username u"
  by (induction ks arbitrary: u)
     (auto simp: apply_kwarg_fields split: kwarg.splits option.splits)

lemma frame_is_active:
  "\<forall>v. Kw_is_active (Some v) \<notin> set ks \<Longrightarrow> is_active (foldl apply_kwarg u ks) = is_active u"
  by (induction ks arbitrary: u)
     (auto simp: apply_kwarg_fields split: kwarg.splits option.splits)

lemma frame_created_at:
  "\<forall>v. Kw_created_at (Some v) \<notin> set ks \<Longrightarrow>
     created_at (foldl apply_kwarg u ks) = created_at u"
  by (induction ks arbitrary: u)
     (auto simp: apply_kwarg_fields split: kwarg.splits option.splits)









text \<open>A column of the object after the loop holds its loaded value or a supplied one.\<close>

lemma supplied_email:
  "email (foldl apply_kwarg u ks) = email u \<or>
   Kw_email (Some (email (foldl apply_kwarg u ks))) \<in> set ks"
proof (induction ks arbitrary: u)
  case Nil
  then show ?case by simp
next
  case (Cons k ks)
  show ?case
    using Cons.IH [of "apply_kwarg u k"]
    by (cases "(u, k)" rule: apply_kwarg.cases) auto
qed

lemma supplied_uid:
  "uid (foldl apply_kwarg u ks) = uid u \<or>
   Kw_id (Some (uid (foldl apply_kwarg u ks))) \<in> set ks"
proof (induction ks arbitrary: u)
  case Nil
  then show ?case by simp
next
  case (Cons k ks)
  show ?case
    using Cons.IH [of "apply_kwarg u k"]
    by (cases "(u, k)" rule: apply_kwarg.cases) auto
qed

lemma supplied_password_hash:
  "password_hash (foldl apply_kwarg u ks) = password_hash u \<or>
   Kw_password_hash (Some (password_hash (foldl apply_kwarg u ks))) \<in> set ks"
proof (induction ks arbitrary: u)
  case Nil
  then show ?case by simp
next
  case (Cons k ks)
  show ?case
    using Cons.IH [of "apply_kwarg u k"]
    by (cases "(u, k)" rule: apply_kwarg.cases) auto
qed

lemma supplied_username:
  "username (foldl apply_kwarg u ks) = username u \<or>
   (\<exists>n. username (foldl apply_kwarg u ks) = Some n \<and> Kw_username (Some n) \<in> set ks)"
proof (induction ks arbitrary: u)
  case Nil
  then show ?case by simp
next
  case (Cons k ks)
  show ?case
    using Cons.IH [of "apply_kwarg u k"]
    by (cases "(u, k)" rule: apply_kwarg.cases) auto
qed

subsection \<open>The write and the reading back\<close>

lemma get_by_id_Some:
  "get_by_id s i = Some r \<Longrightarrow> r \<in> set s \<and> uid r = i"
  by (auto simp: get_by_id_def find_Some_iff)

lemma get_by_id_None:
  "(get_by_id s i = None) = (\<forall>v \<in> set s. uid v \<noteq> i)"
  by (auto simp: get_by_id_def find_None_iff)

lemma update_unchanged:
  "foldl apply_kwarg usr kwargs = usr \<Longrightarrow>
     update s now usr kwargs =
       (case get_by_id s (uid usr) of
          None \<Rightarrow> Inl InvalidRequestError
        | Some r \<Rightarrow> Inr (r, s))"
  by (simp add: update_def)

lemma update_changed:
  "foldl apply_kwarg usr kwargs \<noteq> usr \<Longrightarrow>
     update s now usr kwargs =
       (if column_overflow usr (foldl apply_kwarg usr kwargs) then Inl DBAPIError
        else (case get_by_id s (uid usr) of
                None \<Rightarrow> Inl StaleDataError
              | Some r \<Rightarrow>
                  if key_collision s usr (foldl apply_kwarg usr kwargs) then Inl IntegrityError
                  else Inr (written_row now usr (foldl apply_kwarg usr kwargs) r,
                            map (\<lambda>v. if uid v = uid usr
                                      then written_row now usr (foldl apply_kwarg usr kwargs) r
                                      else v) s)))"
  by (simp add: update_def Let_def split: option.splits)

lemma update_Inr:
  assumes "update s now usr kwargs = Inr (u', s')"
  shows "\<exists>r. get_by_id s (uid usr) = Some r \<and>
           u' = (if foldl apply_kwarg usr kwargs = usr then r
                 else written_row now usr (foldl apply_kwarg usr kwargs) r)"
    and "foldl apply_kwarg usr kwargs = usr \<Longrightarrow> s' = s"
    and "foldl apply_kwarg usr kwargs \<noteq> usr \<Longrightarrow>
           s' = map (\<lambda>v. if uid v = uid usr then u' else v) s"
    and "foldl apply_kwarg usr kwargs \<noteq> usr \<Longrightarrow>
           \<not> column_overflow usr (foldl apply_kwarg usr kwargs) \<and>
           \<not> key_collision s usr (foldl apply_kwarg usr kwargs)"
proof -
  show "\<exists>r. get_by_id s (uid usr) = Some r \<and>
           u' = (if foldl apply_kwarg usr kwargs = usr then r
                 else written_row now usr (foldl apply_kwarg usr kwargs) r)"
    using assms
    by (cases "foldl apply_kwarg usr kwargs = usr")
       (auto simp: update_unchanged update_changed split: option.splits if_splits)
  show "foldl apply_kwarg usr kwargs = usr \<Longrightarrow> s' = s"
    using assms by (auto simp: update_unchanged split: option.splits)
  show "foldl apply_kwarg usr kwargs \<noteq> usr \<Longrightarrow>
           s' = map (\<lambda>v. if uid v = uid usr then u' else v) s"
    using assms by (auto simp: update_changed split: option.splits if_splits)
  show "foldl apply_kwarg usr kwargs \<noteq> usr \<Longrightarrow>
           \<not> column_overflow usr (foldl apply_kwarg usr kwargs) \<and>
           \<not> key_collision s usr (foldl apply_kwarg usr kwargs)"
    using assms by (auto simp: update_changed split: option.splits if_splits)
qed

text \<open>
  Each column of the returned record: the value of the object where the loop changed it,
  the value of the stored row elsewhere.
\<close>

lemma update_column:
  assumes "update s now usr kwargs = Inr (u', s')" and "get_by_id s (uid usr) = Some r"
  shows "uid u' = (if uid (foldl apply_kwarg usr kwargs) = uid usr then uid r
                   else uid (foldl apply_kwarg usr kwargs))"
    and "email u' = (if email (foldl apply_kwarg usr kwargs) = email usr then email r
                     else email (foldl apply_kwarg usr kwargs))"
    and "password_hash u' =
           (if password_hash (foldl apply_kwarg usr kwargs) = password_hash usr
            then password_hash r else password_hash (foldl apply_kwarg usr kwargs))"
    and "username u' = (if username (foldl apply_kwarg usr kwargs) = username usr
                        then username r else username (foldl apply_kwarg usr kwargs))"
    and "is_active u' = (if is_active (foldl apply_kwarg usr kwargs) = is_active usr
                         then is_active r else is_active (foldl apply_kwarg usr kwargs))"
    and "created_at u' = (if created_at (foldl apply_kwarg usr kwargs) = created_at usr
                          then created_at r else created_at (foldl apply_kwarg usr kwargs))"
    and "updated_at u' =
           (if foldl apply_kwarg usr kwargs = usr then updated_at r
            else if updated_at (foldl apply_kwarg usr kwargs) = updated_at usr then now
            else updated_at (foldl apply_kwarg usr kwargs))"
  using update_Inr(1) [OF assms(1)] assms(2)
  by (cases "foldl apply_kwarg usr kwargs = usr"; simp add: written_row_def)+

lemma update_frame:
  assumes "update s now usr kwargs = Inr (u', s')" and "get_by_id s (uid usr) = Some r"
  shows "(\<forall>v. Kw_id (Some v) \<notin> set kwargs) \<longrightarrow> uid u' = uid r"
    and "(\<forall>v. Kw_email (Some v) \<notin> set kwargs) \<longrightarrow> email u' = email r"
    and "(\<forall>v. Kw_password_hash (Some v) \<notin> set kwargs) \<longrightarrow> password_hash u' = password_hash r"
    and "(\<forall>v. Kw_username (Some v) \<notin> set kwargs) \<longrightarrow> username u' = username r"
    and "(\<forall>v. Kw_is_active (Some v) \<notin> set kwargs) \<longrightarrow> is_active u' = is_active r"
    and "(\<forall>v. Kw_created_at (Some v) \<notin> set kwargs) \<longrightarrow> created_at u' = created_at r"
  by (simp_all add: update_column [OF assms] frame_uid frame_email frame_password_hash
        frame_username frame_is_active frame_created_at)



lemma update_persisted:
  assumes "update s now usr kwargs = Inr (u', s')"
  shows "u' \<in> set s'"
proof -
  obtain r where r: "get_by_id s (uid usr) = Some r"
    and u': "u' = (if foldl apply_kwarg usr kwargs = usr then r
                   else written_row now usr (foldl apply_kwarg usr kwargs) r)"
    using update_Inr(1) [OF assms] by blast
  have in_s: "r \<in> set s" and id: "uid r = uid usr"
    using get_by_id_Some [OF r] by simp_all
  show ?thesis
  proof (cases "foldl apply_kwarg usr kwargs = usr")
    case True
    then show ?thesis
      using update_Inr(2) [OF assms] u' in_s by simp
  next
    case False
    have "(\<lambda>v. if uid v = uid usr then u' else v) r \<in> set s'"
      unfolding update_Inr(3) [OF assms False] using in_s by force
    then show ?thesis
      using id by simp
  qed
qed

text \<open>When the call returns, and what it raises when it does not.\<close>

lemma update_returns_iff:
  "(\<exists>u' s'. update s now usr kwargs = Inr (u', s')) =
     (get_by_id s (uid usr) \<noteq> None \<and>
      (foldl apply_kwarg usr kwargs = usr \<or>
       \<not> column_overflow usr (foldl apply_kwarg usr kwargs) \<and>
       \<not> key_collision s usr (foldl apply_kwarg usr kwargs)))"
  by (cases "foldl apply_kwarg usr kwargs = usr")
     (auto simp: update_unchanged update_changed split: option.splits)

lemma update_faults:
  assumes "update s now usr kwargs = Inl f"
  shows "f = InvalidRequestError \<and> get_by_id s (uid usr) = None \<and>
           foldl apply_kwarg usr kwargs = usr \<or>
         f = StaleDataError \<and> get_by_id s (uid usr) = None \<and>
           foldl apply_kwarg usr kwargs \<noteq> usr \<or>
         f = DBAPIError \<and> column_overflow usr (foldl apply_kwarg usr kwargs) \<or>
         f = IntegrityError \<and> key_collision s usr (foldl apply_kwarg usr kwargs)"
  using assms
  by (cases "foldl apply_kwarg usr kwargs = usr")
     (auto simp: update_unchanged update_changed split: option.splits if_splits)

lemma no_overflow:
  assumes "\<forall>v. Kw_email (Some v) \<in> set kwargs \<longrightarrow> length v \<le> 255"
    and "\<forall>v. Kw_password_hash (Some v) \<in> set kwargs \<longrightarrow> length v \<le> 255"
    and "\<forall>v. Kw_username (Some v) \<in> set kwargs \<longrightarrow> length v \<le> 50"
  shows "\<not> column_overflow usr (foldl apply_kwarg usr kwargs)"
  using assms supplied_email [of usr kwargs] supplied_password_hash [of usr kwargs]
    supplied_username [of usr kwargs]
  by (auto simp: column_overflow_def split: option.splits)

lemma no_collision:
  assumes "\<forall>v. Kw_id (Some v) \<notin> set kwargs" and "\<forall>v. Kw_email (Some v) \<notin> set kwargs"
  shows "\<not> key_collision s usr (foldl apply_kwarg usr kwargs)"
  using assms by (simp add: key_collision_def frame_uid frame_email)

lemma update_succeeds:
  assumes "get_by_id s (uid usr) \<noteq> None"
    and "\<forall>v. Kw_id (Some v) \<notin> set kwargs" and "\<forall>v. Kw_email (Some v) \<notin> set kwargs"
    and "\<forall>v. Kw_password_hash (Some v) \<in> set kwargs \<longrightarrow> length v \<le> 255"
    and "\<forall>v. Kw_username (Some v) \<in> set kwargs \<longrightarrow> length v \<le> 50"
  shows "\<exists>u' s'. update s now usr kwargs = Inr (u', s')"
proof -
  have "\<not> column_overflow usr (foldl apply_kwarg usr kwargs)"
    using assms(3,4,5) by (intro no_overflow) simp_all
  moreover have "\<not> key_collision s usr (foldl apply_kwarg usr kwargs)"
    using assms(2,3) by (rule no_collision)
  ultimately show ?thesis
    using assms(1) by (simp add: update_returns_iff)
qed

subsection \<open>The statement about \<^verbatim>\<open>update\<close>\<close>

text \<open>
  A supplied value that equals the value the session loaded is not written. When another
  session has changed the column since, the call returns the other session's value, not
  the supplied one.
\<close>

lemma stale_object_value_not_written:
  "update [alice\<lparr>username := Some ''al''\<rparr>] 99 alice [Kw_username (Some ''alice'')] =
     Inr (alice\<lparr>username := Some ''al''\<rparr>, [alice\<lparr>username := Some ''al''\<rparr>])"
  by (simp add: update_def Let_def get_by_id_def alice_def)




section \<open>Profile update\<close>

lemma username_field_fits:
  "username_field v = Inr x \<Longrightarrow> \<forall>n. v = Some n \<longrightarrow> length n \<le> 50"
  by (auto simp: username_field_def split: option.splits if_splits)

lemma profile_overflow:
  "column_overflow usr (foldl apply_kwarg usr [Kw_username v]) \<Longrightarrow>
     \<exists>n. v = Some n \<and> 50 < length n"
  by (cases v) (auto simp: column_overflow_def split: option.splits)

lemma profile_no_collision:
  "\<not> key_collision s usr (foldl apply_kwarg usr [Kw_username v])"
  by (rule no_collision) simp_all

text \<open>
  C10: when \<^verbatim>\<open>PUT /auth/me\<close> returns, the table held a row \<open>r\<close> of the current user's id;
  the returned record has the \<open>id\<close>, \<open>email\<close>, \<open>password_hash\<close>, \<open>is_active\<close> and
  \<open>created_at\<close> of \<open>r\<close>; the table is left as it was, or the returned record stands in it
  for the rows of the user's id and every other row is kept; when the request carries no
  username, the call returns \<open>r\<close> itself and the table is left as it was, so the username
  is unchanged too. The call returns whenever the row exists and the username has passed
  the validation of the request; it fails only when the row is gone
  (\<^verbatim>\<open>InvalidRequestError\<close>, \<^verbatim>\<open>StaleDataError\<close>) or on a username of more than 50
  characters (\<^verbatim>\<open>DBAPIError\<close>), which the validation of the request excludes.
\<close>

theorem update_current_user_frame:
  "(update_current_user s now data usr = Inr (u', s') \<longrightarrow>
      (\<exists>r. get_by_id s (uid usr) = Some r \<and>
         uid u' = uid r \<and> email u' = email r \<and> password_hash u' = password_hash r \<and>
         is_active u' = is_active r \<and> created_at u' = created_at r \<and>
         (upd_username data = None \<longrightarrow> u' = r \<and> s' = s) \<and>
         (s' = s \<or> s' = map (\<lambda>v. if uid v = uid usr then u' else v) s) \<and>
         u' \<in> set s')) \<and>
   (get_by_id s (uid usr) \<noteq> None \<and> (\<exists>x. username_field (upd_username data) = Inr x) \<longrightarrow>
      (\<exists>u' s'. update_current_user s now data usr = Inr (u', s'))) \<and>
   (\<forall>f. update_current_user s now data usr = Inl f \<longrightarrow>
      (f = InvalidRequestError \<or> f = StaleDataError) \<and> get_by_id s (uid usr) = None \<or>
      f = DBAPIError \<and> (\<exists>n. upd_username data = Some n \<and> 50 < length n))"
proof (intro conjI impI allI)
  assume "update_current_user s now data usr = Inr (u', s')"
  then have ok: "update s now usr [Kw_username (upd_username data)] = Inr (u', s')"
    by (simp add: update_current_user_def)
  obtain r where r: "get_by_id s (uid usr) = Some r"
    and u': "u' = (if foldl apply_kwarg usr [Kw_username (upd_username data)] = usr then r
                   else written_row now usr
                     (foldl apply_kwarg usr [Kw_username (upd_username data)]) r)"
    using update_Inr(1) [OF ok] by blast
  have cols: "uid u' = uid r" "email u' = email r" "password_hash u' = password_hash r"
    "is_active u' = is_active r" "created_at u' = created_at r"
    using update_frame(1,2,3,5,6) [OF ok r] by simp_all
  have absent: "upd_username data = None \<longrightarrow> u' = r \<and> s' = s"
    using u' update_Inr(2) [OF ok] by auto
  have table: "s' = s \<or> s' = map (\<lambda>v. if uid v = uid usr then u' else v) s"
    using update_Inr(2,3) [OF ok] by blast
  have stored: "u' \<in> set s'"
    by (rule update_persisted [OF ok])
  show "\<exists>r. get_by_id s (uid usr) = Some r \<and>
         uid u' = uid r \<and> email u' = email r \<and> password_hash u' = password_hash r \<and>
         is_active u' = is_active r \<and> created_at u' = created_at r \<and>
         (upd_username data = None \<longrightarrow> u' = r \<and> s' = s) \<and>
         (s' = s \<or> s' = map (\<lambda>v. if uid v = uid usr then u' else v) s) \<and>
         u' \<in> set s'"
    using r cols absent table stored by (intro exI [of _ r] conjI)
next
  assume a: "get_by_id s (uid usr) \<noteq> None \<and>
    (\<exists>x. username_field (upd_username data) = Inr x)"
  then have "\<forall>n. upd_username data = Some n \<longrightarrow> length n \<le> 50"
    using username_field_fits by blast
  then have "\<exists>u' s'. update s now usr [Kw_username (upd_username data)] = Inr (u', s')"
    using a by (intro update_succeeds) simp_all
  then show "\<exists>u' s'. update_current_user s now data usr = Inr (u', s')"
    by (simp add: update_current_user_def)
next
  fix f
  assume "update_current_user s now data usr = Inl f"
  then have "update s now usr [Kw_username (upd_username data)] = Inl f"
    by (simp add: update_current_user_def)
  from update_faults [OF this] profile_no_collision [of s usr "upd_username data"]
    profile_overflow [of usr "upd_username data"]
  show "(f = InvalidRequestError \<or> f = StaleDataError) \<and> get_by_id s (uid usr) = None \<or>
      f = DBAPIError \<and> (\<exists>n. upd_username data = Some n \<and> 50 < length n)"
    by blast
qed

theorem update_current_user_frame_witness:
  "update_current_user [alice, bob] 99 \<lparr>upd_username = None\<rparr> alice = Inr (alice, [alice, bob]) \<and>
   update_current_user [alice, bob] 99 \<lparr>upd_username = Some ''al''\<rparr> alice =
     Inr (alice\<lparr>username := Some ''al'', updated_at := 99\<rparr>,
          [alice\<lparr>username := Some ''al'', updated_at := 99\<rparr>, bob]) \<and>
   get_by_id [alice, bob] (uid alice) = Some alice \<and>
   username_field (Some ''al'') = Inr (Some ''al'') \<and>
   uid (alice\<lparr>username := Some ''al'', updated_at := 99\<rparr>) = uid alice \<and>
   email (alice\<lparr>username := Some ''al'', updated_at := 99\<rparr>) = email alice \<and>
   password_hash (alice\<lparr>username := Some ''al'', updated_at := 99\<rparr>) = password_hash alice \<and>
   is_active (alice\<lparr>username := Some ''al'', updated_at := 99\<rparr>) = is_active alice \<and>
   created_at (alice\<lparr>username := Some ''al'', updated_at := 99\<rparr>) = created_at alice \<and>
   get_by_id [alice] (uid bob) = None \<and>
   update_current_user [alice] 99 \<lparr>upd_username = Some ''bo''\<rparr> bob = Inl StaleDataError \<and>
   update_current_user [alice] 99 \<lparr>upd_username = None\<rparr> bob = Inl InvalidRequestError"
proof -
  have same: "update_current_user [alice, bob] 99 \<lparr>upd_username = None\<rparr> alice =
      Inr (alice, [alice, bob])"
    by (simp add: update_current_user_def update_def get_by_id_def)
  have changed: "update_current_user [alice, bob] 99 \<lparr>upd_username = Some ''al''\<rparr> alice =
      Inr (alice\<lparr>username := Some ''al'', updated_at := 99\<rparr>,
           [alice\<lparr>username := Some ''al'', updated_at := 99\<rparr>, bob])"
    by (simp add: update_current_user_def update_def Let_def get_by_id_def
          column_overflow_def key_collision_def written_row_def alice_def bob_def)
  have row: "get_by_id [alice, bob] (uid alice) = Some alice"
    by (simp add: get_by_id_def)
  have field: "username_field (Some ''al'') = Inr (Some ''al'')"
    by (simp add: username_field_def)
  have gone: "get_by_id [alice] (uid bob) = None"
    by (simp add: get_by_id_def alice_def bob_def)
  have stale: "update_current_user [alice] 99 \<lparr>upd_username = Some ''bo''\<rparr> bob =
      Inl StaleDataError"
    by (simp add: update_current_user_def update_def Let_def get_by_id_def
          column_overflow_def alice_def bob_def)
  have missing: "update_current_user [alice] 99 \<lparr>upd_username = None\<rparr> bob =
      Inl InvalidRequestError"
    by (simp add: update_current_user_def update_def get_by_id_def alice_def bob_def)
  show ?thesis
    using same changed row field gone stale missing
      update_current_user_frame [of "[alice, bob]" 99 "\<lparr>upd_username = Some ''al''\<rparr>" alice
        "alice\<lparr>username := Some ''al'', updated_at := 99\<rparr>"
        "[alice\<lparr>username := Some ''al'', updated_at := 99\<rparr>, bob]"]
      update_current_user_frame [of "[alice, bob]" 99 "\<lparr>upd_username = None\<rparr>" alice
        alice "[alice, bob]"]
      update_current_user_frame [of "[alice]" 99 "\<lparr>upd_username = Some ''bo''\<rparr>" bob]
    by simp
qed

section \<open>The rows of the table stay unique\<close>

text \<open>
  \<^verbatim>\<open>create\<close> and \<^verbatim>\<open>update\<close> keep the ids and the e-mails of the table distinct, which
  is what lets a lookup return the one row that matches.
\<close>

lemma create_keeps_rows_unique:
  assumes "unique_rows s" and "create s new_id now e h name = Inr (u, s')"
  shows "unique_rows s'"
  using assms
  by (auto simp: unique_rows_def create_def Let_def list_ex_iff split: if_splits)

lemma distinct_map_replace:
  assumes "distinct (map f s)" and "distinct (map g s)"
    and "\<forall>v \<in> set s. g v \<noteq> a \<longrightarrow> f v \<noteq> x"
  shows "distinct (map (\<lambda>v. if g v = a then x else f v) s)"
  using assms
proof (induction s)
  case Nil
  then show ?case by simp
next
  case (Cons w s)
  have tail: "distinct (map (\<lambda>v. if g v = a then x else f v) s)"
    using Cons by simp
  have fresh: "(if g w = a then x else f w) \<notin> (\<lambda>v. if g v = a then x else f v) ` set s"
  proof (cases "g w = a")
    case True
    have "g w \<notin> g ` set s" using Cons.prems(2) by simp
    then have "\<forall>v \<in> set s. g v \<noteq> a" using True by (metis imageI)
    then show ?thesis using True Cons.prems(3) by auto
  next
    case False
    then have "f w \<noteq> x" using Cons.prems(3) by simp
    moreover have "f w \<notin> f ` set s" using Cons.prems(1) by simp
    ultimately show ?thesis using False by auto
  qed
  show ?case using tail fresh by simp
qed

lemma update_keeps_rows_unique:
  assumes "unique_rows s" and "update s now usr kwargs = Inr (u', s')"
  shows "unique_rows s'"
proof (cases "foldl apply_kwarg usr kwargs = usr")
  case True
  then show ?thesis
    using update_Inr(2) [OF assms(2)] assms(1) by simp
next
  case False
  obtain r where r: "get_by_id s (uid usr) = Some r"
    using update_Inr(1) [OF assms(2)] by blast
  have in_s: "r \<in> set s" and id: "uid r = uid usr"
    using get_by_id_Some [OF r] by simp_all
  have s': "s' = map (\<lambda>v. if uid v = uid usr then u' else v) s"
    by (rule update_Inr(3) [OF assms(2) False])
  have free: "\<not> key_collision s usr (foldl apply_kwarg usr kwargs)"
    using update_Inr(4) [OF assms(2) False] by simp
  have du: "distinct (map uid s)" and de: "distinct (map email s)"
    using assms(1) by (simp_all add: unique_rows_def)
  have "\<forall>v \<in> set s. uid v \<noteq> uid usr \<longrightarrow> uid v \<noteq> uid u'"
    using free id
    by (auto simp: update_column(1) [OF assms(2) r] key_collision_def list_ex_iff)
  then have a: "distinct (map (\<lambda>v. if uid v = uid usr then uid u' else uid v) s)"
    using du by (intro distinct_map_replace) simp_all
  have "\<forall>v \<in> set s. uid v \<noteq> uid usr \<longrightarrow> email v \<noteq> email u'"
  proof (intro ballI impI)
    fix v
    assume v: "v \<in> set s" and other: "uid v \<noteq> uid usr"
    show "email v \<noteq> email u'"
    proof (cases "email (foldl apply_kwarg usr kwargs) = email usr")
      case True
      then have "email u' = email r"
        by (simp add: update_column(2) [OF assms(2) r])
      moreover have "v \<noteq> r"
        using other id by auto
      ultimately show ?thesis
        using de v in_s by (auto simp: distinct_map inj_on_def)
    next
      case False
      then have "email u' = email (foldl apply_kwarg usr kwargs)"
        by (simp add: update_column(2) [OF assms(2) r])
      then show ?thesis
        using free False v other by (auto simp: key_collision_def list_ex_iff)
    qed
  qed
  then have b: "distinct (map (\<lambda>v. if uid v = uid usr then email u' else email v) s)"
    using de du by (intro distinct_map_replace) simp_all
  have "map uid s' = map (\<lambda>v. if uid v = uid usr then uid u' else uid v) s"
    and "map email s' = map (\<lambda>v. if uid v = uid usr then email u' else email v) s"
    by (simp_all add: s')
  then show ?thesis
    using a b by (simp add: unique_rows_def)
qed

end
